theory Spec2Isabelle
  imports Main "HOL-Library.Word" "HOL-Library.List_Lexorder" "HOL-Library.Char_ord"
begin

section \<open>Thread interruption in dramatiq/middleware/threading.py\<close>

text \<open>
  The module keeps one global flag (\<open>system_call_interruptable\<close>), reads three facts
  of its host once at import (the interpreter family, the interpreter version and the
  name of the wake-up signal) and talks to three collaborators: the interpreter's
  \<open>PyThreadState_SetAsyncExc\<close>, the \<open>signal\<close> module and the logger. The embedding
  keeps the import-time facts in a record \<open>env\<close>, the global flag and everything the
  collaborators hold in a record \<open>state\<close>, and writes every Python function as a
  function from a state to an outcome (a returned value or a raised exception) and the
  state it leaves behind.
\<close>

subsection \<open>Classes and objects\<close>

text \<open>A class carries its name and its direct bases, as a \<open>class\<close> statement gives them.\<close>

datatype pyclass = Class (class_name: string) (class_bases: "pyclass list")

fun issubclass :: "pyclass \<Rightarrow> pyclass \<Rightarrow> bool" where
  "issubclass (Class n bs) d = (Class n bs = d \<or> list_ex (\<lambda>b. issubclass b d) bs)"

definition object_cls :: pyclass where
  "object_cls = Class ''object'' []"

definition BaseException_cls :: pyclass where
  "BaseException_cls = Class ''BaseException'' [object_cls]"

definition Exception_cls :: pyclass where
  "Exception_cls = Class ''Exception'' [BaseException_cls]"

text \<open>\<^verbatim>\<open>class Interrupt(BaseException)\<close>, lines 74 to 81.\<close>

definition Interrupt :: pyclass where
  "Interrupt = Class ''Interrupt'' [BaseException_cls]"

text \<open>
  An \<^verbatim>\<open>except handler:\<close> clause catches a raised exception whose class is the handler
  class or derives from it.
\<close>

definition except_catches :: "pyclass \<Rightarrow> pyclass \<Rightarrow> bool" where
  "except_catches handler raised = issubclass raised handler"

text \<open>
  The \<open>exception\<close> argument of \<open>raise_thread_exception\<close> is a class or an instance of
  one; \<open>Instance c\<close> is an object whose \<open>type\<close> is \<open>c\<close>.
\<close>

datatype pyobject = ClassObj pyclass | Instance pyclass

text \<open>
  \<^verbatim>\<open>(exception if inspect.isclass(exception) else type(exception)).__name__\<close>:
  the name of the class itself when a class was passed, of the object's type otherwise.
\<close>

fun exctype_name :: "pyobject \<Rightarrow> string" where
  "exctype_name (ClassObj c) = class_name c"
| "exctype_name (Instance c) = class_name c"

subsection \<open>What the module reads at import\<close>

datatype ctype = c_long | c_ulong

text \<open>
  \<open>python_version\<close> is the tuple of strings \<open>platform.python_version_tuple()\<close> returns;
  \<open>system_call_interrupt_signal\<close> is the name read from the process environment
  (line 46); \<open>signal_module\<close> lists the attributes of the \<open>signal\<close> module, each
  with its integer value. \<open>hasattr\<close> and \<open>getattr\<close> look a name up in that list.
  Two facts of the host decide what the \<open>signal\<close> module does with such a value:
  signal numbers run from 1 to \<open>nsig - 1\<close> (\<open>signal.NSIG\<close>), and the numbers in
  \<open>uncatchable\<close> (\<open>SIGKILL\<close> and \<open>SIGSTOP\<close>) are signals whose disposition the
  host does not let a process change.
\<close>

record env =
  current_platform :: string
  python_version :: "string list"
  system_call_interrupt_signal :: string
  signal_module :: "(string \<times> nat) list"
  nsig :: nat
  uncatchable :: "nat list"

text \<open>
  \<^verbatim>\<open>thread_id_ctype = ctypes.c_long if python_version < ("3", "7") else ctypes.c_ulong\<close>
  Python orders tuples lexicographically, and so it orders the strings inside them,
  character by character; the order of \<open>string list\<close> is that order.
\<close>

definition thread_id_ctype :: "env \<Rightarrow> ctype" where
  "thread_id_ctype e = (if python_version e < [''3'', ''7''] then c_long else c_ulong)"

text \<open>
  A ctypes integer keeps the low bits of the Python integer it is built from (no overflow
  check); \<open>long\<close> and \<open>unsigned long\<close> have 64 bits on the hosts that have
  \<open>pthread_kill\<close>. Its \<open>value\<close> reads the bits back, signed for \<open>c_long\<close>.
\<close>

definition ctype_bits :: "int \<Rightarrow> 64 word" where
  "ctype_bits n = word_of_int n"

fun ctype_value :: "ctype \<Rightarrow> 64 word \<Rightarrow> int" where
  "ctype_value c_long w = sint w"
| "ctype_value c_ulong w = uint w"

subsection \<open>State, outcomes and sequencing\<close>

datatype error = AttributeError | ProcessLookupError | ValueError | OSError

datatype 'a outcome = Returned 'a | Raised error

datatype pyval = PyNone | PyInt int

datatype level = DEBUG | CRITICAL

datatype logarg = ArgStr string | ArgInt int

datatype handler = SIG_DFL | interrupt_signal_handler_fn

text \<open>The calls the module makes into the interpreter and the \<open>signal\<close> module.\<close>

datatype call =
    Siginterrupt nat bool
  | SignalSet nat handler
  | SetAsyncExc "64 word" "pyobject option"
  | PthreadKill "64 word" nat

text \<open>
  \<open>tstates\<close> are the interpreter's thread states, each with its thread id and its
  pending asynchronous exception; \<open>os_threads\<close> are the ids of the native threads that
  exist; \<open>main_thread\<close> says whether the thread that runs the module's functions is
  the main thread of the main interpreter; \<open>calls\<close> records the calls that took
  effect so far, oldest first; \<open>logged\<close> and \<open>stdout\<close> are what the logger and
  \<open>print\<close> have received.
\<close>

record state =
  system_call_interruptable :: bool
  tstates :: "(64 word \<times> pyobject option) list"
  os_threads :: "64 word list"
  main_thread :: bool
  calls :: "call list"
  logged :: "(level \<times> string \<times> logarg list) list"
  stdout :: "string list"

type_synonym 'a py = "state \<Rightarrow> 'a outcome \<times> state"

definition py_return :: "'a \<Rightarrow> 'a py" where
  "py_return v s = (Returned v, s)"

definition py_bind :: "'a py \<Rightarrow> ('a \<Rightarrow> 'b py) \<Rightarrow> 'b py" where
  "py_bind m f s = (case m s of (Returned v, s') \<Rightarrow> f v s' | (Raised e, s') \<Rightarrow> (Raised e, s'))"

definition py_then :: "'a py \<Rightarrow> 'b py \<Rightarrow> 'b py" where
  "py_then m k = py_bind m (\<lambda>_. k)"

text \<open>\<^verbatim>\<open>try: body  except err: handler\<close>\<close>

definition py_try_except :: "'a py \<Rightarrow> error \<Rightarrow> 'a py \<Rightarrow> 'a py" where
  "py_try_except body err handler s =
     (case body s of
        (Raised e, s') \<Rightarrow> if e = err then handler s' else (Raised e, s')
      | (Returned v, s') \<Rightarrow> (Returned v, s'))"

definition get_flag :: "bool py" where
  "get_flag s = (Returned (system_call_interruptable s), s)"

definition set_flag :: "bool \<Rightarrow> unit py" where
  "set_flag b s = (Returned (), s\<lparr>system_call_interruptable := b\<rparr>)"

subsection \<open>The collaborators\<close>

definition hasattr_signal :: "env \<Rightarrow> string \<Rightarrow> bool" where
  "hasattr_signal e name = (map_of (signal_module e) name \<noteq> None)"

definition getattr_signal :: "env \<Rightarrow> string \<Rightarrow> nat py" where
  "getattr_signal e name s =
     (case map_of (signal_module e) name of
        None \<Rightarrow> (Raised AttributeError, s)
      | Some signum \<Rightarrow> (Returned signum, s))"

text \<open>
  \<open>signal.siginterrupt(signalnum, flag)\<close> raises \<open>ValueError\<close> for a number out of
  range and \<open>OSError\<close> when the host refuses to change the signal's action; otherwise
  it takes effect.
\<close>

definition signal_siginterrupt :: "env \<Rightarrow> nat \<Rightarrow> bool \<Rightarrow> unit py" where
  "signal_siginterrupt e signum flag s =
     (if \<not> (1 \<le> signum \<and> signum < nsig e) then (Raised ValueError, s)
      else if signum \<in> set (uncatchable e) then (Raised OSError, s)
      else (Returned (), s\<lparr>calls := calls s @ [Siginterrupt signum flag]\<rparr>))"

text \<open>
  \<open>signal.signal(signalnum, handler)\<close> raises \<open>ValueError\<close> when it is not called
  from the main thread of the main interpreter, \<open>ValueError\<close> for a number out of
  range and \<open>OSError\<close> when the host refuses to install the handler; otherwise it
  takes effect.
\<close>

definition signal_signal :: "env \<Rightarrow> nat \<Rightarrow> handler \<Rightarrow> unit py" where
  "signal_signal e signum h s =
     (if \<not> main_thread s then (Raised ValueError, s)
      else if \<not> (1 \<le> signum \<and> signum < nsig e) then (Raised ValueError, s)
      else if signum \<in> set (uncatchable e) then (Raised OSError, s)
      else (Returned (), s\<lparr>calls := calls s @ [SignalSet signum h]\<rparr>))"

text \<open>
  \<open>signal.pthread_kill\<close> takes the thread id as an unsigned long (the low 64 bits of
  the Python integer) and raises \<open>ProcessLookupError\<close> when no such thread exists.
\<close>

definition signal_pthread_kill :: "int \<Rightarrow> nat \<Rightarrow> unit py" where
  "signal_pthread_kill thread_id signum s =
     (if ctype_bits thread_id \<in> set (os_threads s) then Returned () else Raised ProcessLookupError,
      s\<lparr>calls := calls s @ [PthreadKill (ctype_bits thread_id) signum]\<rparr>)"

text \<open>
  \<open>PyThreadState_SetAsyncExc(id, exc)\<close> stores \<open>exc\<close> as the pending asynchronous
  exception of every thread state whose id is \<open>id\<close> (a null \<open>exc\<close> clears it) and
  returns the number of thread states it modified.
\<close>

definition PyThreadState_SetAsyncExc :: "64 word \<Rightarrow> pyobject option \<Rightarrow> int py" where
  "PyThreadState_SetAsyncExc tid exc s =
     (Returned (int (length (filter (\<lambda>t. fst t = tid) (tstates s)))),
      s\<lparr>tstates := map (\<lambda>t. if fst t = tid then (fst t, exc) else t) (tstates s),
        calls := calls s @ [SetAsyncExc tid exc]\<rparr>)"

definition logger_log :: "level \<Rightarrow> string \<Rightarrow> logarg list \<Rightarrow> unit py" where
  "logger_log lvl msg args s = (Returned (), s\<lparr>logged := logged s @ [(lvl, msg, args)]\<rparr>)"

definition print_line :: "string \<Rightarrow> unit py" where
  "print_line msg s = (Returned (), s\<lparr>stdout := stdout s @ [msg]\<rparr>)"

subsection \<open>The functions of the module\<close>

text \<open>\<open>interrupt_signal_handler(signum, frame)\<close>, lines 49 to 51.\<close>

definition interrupt_signal_handler :: "nat \<Rightarrow> 'f \<Rightarrow> pyval py" where
  "interrupt_signal_handler signum frame =
     py_then (print_line ''Interrupting system call in worker thread.'')
    (py_then (logger_log DEBUG ''Interrupting system call in worker thread.'' [])
             (py_return PyNone))"

text \<open>\<open>enable_system_call_interruptable_support()\<close>, lines 54 to 62.\<close>

definition enable_system_call_interruptable_support :: "env \<Rightarrow> pyval py" where
  "enable_system_call_interruptable_support e =
     py_bind get_flag (\<lambda>armed.
       if \<not> armed \<and> hasattr_signal e (system_call_interrupt_signal e) then
         py_bind (getattr_signal e (system_call_interrupt_signal e)) (\<lambda>sig1.
         py_then (signal_siginterrupt e sig1 True)
        (py_bind (getattr_signal e (system_call_interrupt_signal e)) (\<lambda>sig2.
         py_then (signal_signal e sig2 interrupt_signal_handler_fn)
        (py_then (set_flag True)
                 (py_return PyNone)))))
       else py_return PyNone)"

text \<open>\<open>disable_system_call_interruptable_support()\<close>, lines 65 to 71.\<close>

definition disable_system_call_interruptable_support :: "env \<Rightarrow> pyval py" where
  "disable_system_call_interruptable_support e =
     py_bind get_flag (\<lambda>armed.
       if armed then
         py_bind (getattr_signal e (system_call_interrupt_signal e)) (\<lambda>sig1.
         py_then (signal_siginterrupt e sig1 False)
        (py_bind (getattr_signal e (system_call_interrupt_signal e)) (\<lambda>sig2.
         py_then (signal_signal e sig2 SIG_DFL)
        (py_then (set_flag False)
                 (py_return PyNone)))))
       else py_return PyNone)"

text \<open>\<open>_raise_thread_exception_cpython(thread_id, exception)\<close>, lines 108 to 118.\<close>

definition raise_thread_exception_cpython :: "env \<Rightarrow> int \<Rightarrow> pyobject \<Rightarrow> int py" where
  "raise_thread_exception_cpython e thread_id exception =
     (let exctype = exctype_name exception;
          tid = ctype_bits thread_id
      in py_bind (PyThreadState_SetAsyncExc tid (Some exception)) (\<lambda>count.
         py_then
           (if count = 0 then
              logger_log CRITICAL ''Failed to set exception (%s) in thread %r.''
                [ArgStr exctype, ArgInt (ctype_value (thread_id_ctype e) tid)]
            else if count > 1 then
              py_then (logger_log CRITICAL ''Exception (%s) was set in multiple threads.  Undoing...''
                         [ArgStr exctype])
             (py_then (PyThreadState_SetAsyncExc tid None)
                      (py_return ()))
            else py_return ())
           (py_return count)))"

text \<open>\<open>raise_thread_exception(thread_id, exception)\<close>, lines 84 to 105.\<close>

definition raise_thread_exception :: "env \<Rightarrow> int \<Rightarrow> pyobject \<Rightarrow> pyval py" where
  "raise_thread_exception e thread_id exception =
     (if current_platform e = ''CPython'' then
        py_bind (raise_thread_exception_cpython e thread_id exception) (\<lambda>ret.
        py_bind get_flag (\<lambda>armed.
          if ret = 1 \<and> armed then
            py_then
              (py_try_except
                 (py_bind (getattr_signal e (system_call_interrupt_signal e)) (\<lambda>signum.
                    signal_pthread_kill thread_id signum))
                 ProcessLookupError
                 (py_return ()))
              (py_return PyNone)
          else py_return PyNone))
      else
        py_then
          (logger_log CRITICAL
             ''Setting thread exceptions (%s) is not supported for your current platform (%r).''
             [ArgStr (exctype_name exception), ArgStr (current_platform e)])
          (py_return PyNone))"

subsection \<open>The states the module can reach\<close>

text \<open>
  Right after import the flag is false (line 45) and nothing has been called, logged or
  printed; the threads are whatever the process has, and the import runs in the main
  thread.
\<close>

definition module_loaded :: "(64 word \<times> pyobject option) list \<Rightarrow> 64 word list \<Rightarrow> state" where
  "module_loaded ts os =
     \<lparr>system_call_interruptable = False, tstates = ts, os_threads = os, main_thread = True,
      calls = [], logged = [], stdout = []\<rparr>"

text \<open>
  From there the state moves by calls of the module's functions, whatever their outcome
  (a call that raises leaves the state it had reached), by deliveries of the wake-up
  signal (which run the handler), by threads starting and ending, and by the next call
  coming from another thread, the main one or not.
\<close>

inductive reachable :: "env \<Rightarrow> state \<Rightarrow> bool" for e :: env where
  loaded: "reachable e (module_loaded ts os)"
| enable: "reachable e s \<Longrightarrow> reachable e (snd (enable_system_call_interruptable_support e s))"
| disable: "reachable e s \<Longrightarrow> reachable e (snd (disable_system_call_interruptable_support e s))"
| raise: "reachable e s \<Longrightarrow> reachable e (snd (raise_thread_exception e thread_id exception s))"
| handler: "reachable e s \<Longrightarrow> reachable e (snd (interrupt_signal_handler signum () s))"
| threads: "reachable e s \<Longrightarrow> reachable e (s\<lparr>tstates := ts, os_threads := os\<rparr>)"
| caller: "reachable e s \<Longrightarrow> reachable e (s\<lparr>main_thread := b\<rparr>)"

text \<open>The invariant: an armed flag means the configured name is an attribute of \<open>signal\<close>.\<close>

definition armed_signal_defined :: "env \<Rightarrow> state \<Rightarrow> bool" where
  "armed_signal_defined e s =
     (system_call_interruptable s \<longrightarrow> hasattr_signal e (system_call_interrupt_signal e))"

text \<open>
  A value the \<open>signal\<close> module accepts as a signal whose action can be changed; and the
  stronger invariant that an armed flag means the configured name has such a value.
\<close>

definition signal_accepted :: "env \<Rightarrow> nat \<Rightarrow> bool" where
  "signal_accepted e k = (1 \<le> k \<and> k < nsig e \<and> k \<notin> set (uncatchable e))"

definition armed_signal_accepted :: "env \<Rightarrow> state \<Rightarrow> bool" where
  "armed_signal_accepted e s =
     (system_call_interruptable s \<longrightarrow>
        (case map_of (signal_module e) (system_call_interrupt_signal e) of
           None \<Rightarrow> False
         | Some k \<Rightarrow> signal_accepted e k))"

subsection \<open>Hosts and payloads of the examples\<close>

definition linux_cpython :: env where
  "linux_cpython =
     \<lparr>current_platform = ''CPython'', python_version = [''3'', ''8'', ''10''],
      system_call_interrupt_signal = ''SIGUSR1'',
      signal_module = [(''SIGINT'', 2), (''SIGKILL'', 9), (''SIGUSR1'', 10), (''SIGUSR2'', 12),
                       (''SIGTERM'', 15), (''SIGSTOP'', 19), (''NSIG'', 65)],
      nsig = 65, uncatchable = [9, 19]\<rparr>"

definition TimeLimitExceeded :: pyclass where
  "TimeLimitExceeded = Class ''TimeLimitExceeded'' [Interrupt]"

section \<open>Evaluation lemmas\<close>

lemmas py_defs =
  py_return_def py_bind_def py_then_def py_try_except_def get_flag_def set_flag_def
  getattr_signal_def hasattr_signal_def signal_siginterrupt_def signal_signal_def
  signal_pthread_kill_def PyThreadState_SetAsyncExc_def logger_log_def print_line_def

lemmas class_defs = Interrupt_def Exception_cls_def BaseException_cls_def object_cls_def

lemma cpython_closed_form:
  "raise_thread_exception_cpython e thread_id x s =
     (Returned (int (length (filter (\<lambda>t. fst t = ctype_bits thread_id) (tstates s)))),
      (if length (filter (\<lambda>t. fst t = ctype_bits thread_id) (tstates s)) = 0 then
         s\<lparr>tstates := map (\<lambda>t. if fst t = ctype_bits thread_id then (fst t, Some x) else t) (tstates s),
           calls := calls s @ [SetAsyncExc (ctype_bits thread_id) (Some x)],
           logged := logged s @ [(CRITICAL, ''Failed to set exception (%s) in thread %r.'',
              [ArgStr (exctype_name x), ArgInt (ctype_value (thread_id_ctype e) (ctype_bits thread_id))])]\<rparr>
       else if length (filter (\<lambda>t. fst t = ctype_bits thread_id) (tstates s)) > 1 then
         s\<lparr>tstates := map (\<lambda>t. if fst t = ctype_bits thread_id then (fst t, None) else t) (tstates s),
           calls := calls s @ [SetAsyncExc (ctype_bits thread_id) (Some x), SetAsyncExc (ctype_bits thread_id) None],
           logged := logged s @ [(CRITICAL, ''Exception (%s) was set in multiple threads.  Undoing...'',
              [ArgStr (exctype_name x)])]\<rparr>
       else
         s\<lparr>tstates := map (\<lambda>t. if fst t = ctype_bits thread_id then (fst t, Some x) else t) (tstates s),
           calls := calls s @ [SetAsyncExc (ctype_bits thread_id) (Some x)]\<rparr>))"
  by (simp add: raise_thread_exception_cpython_def py_defs Let_def o_def cong: if_cong)

lemma raise_closed_form:
  "current_platform e = ''CPython'' \<Longrightarrow>
   raise_thread_exception e thread_id x s =
    (let r = raise_thread_exception_cpython e thread_id x s; s1 = snd r in
     if fst r = Returned 1 \<and> system_call_interruptable s then
       (case map_of (signal_module e) (system_call_interrupt_signal e) of
          None \<Rightarrow> (Raised AttributeError, s1)
        | Some k \<Rightarrow> (Returned PyNone, s1\<lparr>calls := calls s1 @ [PthreadKill (ctype_bits thread_id) k]\<rparr>))
     else (Returned PyNone, s1))"
  by (auto simp add: raise_thread_exception_def cpython_closed_form py_defs Let_def split: option.splits)

lemma raise_unsupported_flag:
  "current_platform e \<noteq> ''CPython'' \<Longrightarrow>
   fst (raise_thread_exception e thread_id x s) = Returned PyNone
   \<and> system_call_interruptable (snd (raise_thread_exception e thread_id x s))
       = system_call_interruptable s"
  by (simp add: raise_thread_exception_def py_defs)

lemma handler_flag:
  "system_call_interruptable (snd (interrupt_signal_handler signum frame s))
     = system_call_interruptable s"
  by (simp add: interrupt_signal_handler_def py_defs)

lemma enable_closed_form:
  "enable_system_call_interruptable_support e s =
    (case map_of (signal_module e) (system_call_interrupt_signal e) of
       None \<Rightarrow> (Returned PyNone, s)
     | Some k \<Rightarrow>
         if system_call_interruptable s then (Returned PyNone, s)
         else if \<not> (1 \<le> k \<and> k < nsig e) then (Raised ValueError, s)
         else if k \<in> set (uncatchable e) then (Raised OSError, s)
         else if \<not> main_thread s then
           (Raised ValueError, s\<lparr>calls := calls s @ [Siginterrupt k True]\<rparr>)
         else
           (Returned PyNone,
            s\<lparr>calls := calls s @ [Siginterrupt k True, SignalSet k interrupt_signal_handler_fn],
              system_call_interruptable := True\<rparr>))"
  by (simp add: enable_system_call_interruptable_support_def py_defs split: option.splits)

lemma disable_closed_form:
  "disable_system_call_interruptable_support e s =
    (if system_call_interruptable s then
       (case map_of (signal_module e) (system_call_interrupt_signal e) of
          None \<Rightarrow> (Raised AttributeError, s)
        | Some k \<Rightarrow>
            if \<not> (1 \<le> k \<and> k < nsig e) then (Raised ValueError, s)
            else if k \<in> set (uncatchable e) then (Raised OSError, s)
            else if \<not> main_thread s then
              (Raised ValueError, s\<lparr>calls := calls s @ [Siginterrupt k False]\<rparr>)
            else
              (Returned PyNone,
               s\<lparr>calls := calls s @ [Siginterrupt k False, SignalSet k SIG_DFL],
                 system_call_interruptable := False\<rparr>))
     else (Returned PyNone, s))"
  by (simp add: disable_system_call_interruptable_support_def py_defs split: option.splits)

text \<open>
  Within the range both marshalling types share, the \<open>value\<close> of the marshalled id is
  the id.
\<close>

lemma ctype_value_in_range:
  "0 \<le> n \<Longrightarrow> n < 2 ^ 63 \<Longrightarrow> ctype_value c (ctype_bits n) = n"
proof (cases c)
  case c_long
  assume "0 \<le> n" "n < 2 ^ 63"
  then have "signed_take_bit 63 n = n"
    by (intro signed_take_bit_int_eq_self) auto
  with c_long show ?thesis
    by (simp add: ctype_bits_def signed_of_int)
next
  case c_ulong
  assume "0 \<le> n" "n < 2 ^ 63"
  then have "take_bit 64 n = n"
    by (intro take_bit_int_eq_self) auto
  with c_ulong show ?thesis
    by (simp add: ctype_bits_def uint_word_of_int_eq)
qed

text \<open>
  Where the invariant holds, \<open>raise_thread_exception\<close> returns, and what it returns is
  \<open>None\<close>.
\<close>

lemma raise_returns_None:
  assumes "armed_signal_defined e s"
  shows "fst (raise_thread_exception e thread_id x s) = Returned PyNone"
proof (cases "current_platform e = ''CPython''")
  case True
  with assms show ?thesis
    by (auto simp add: raise_closed_form cpython_closed_form armed_signal_defined_def
        hasattr_signal_def Let_def split: if_splits option.splits)
next
  case False
  then show ?thesis by (simp add: raise_unsupported_flag)
qed

text \<open>The guard of \<open>enable\<close> is what keeps \<open>disable\<close> from failing.\<close>

lemma disable_without_signal_raises:
  "system_call_interruptable s \<Longrightarrow> \<not> hasattr_signal e (system_call_interrupt_signal e) \<Longrightarrow>
   disable_system_call_interruptable_support e s = (Raised AttributeError, s)"
  by (simp add: disable_closed_form hasattr_signal_def)

lemma reachable_armed_signal_defined: "reachable e s \<Longrightarrow> armed_signal_defined e s"
proof (induction rule: reachable.induct)
  case (loaded ts os)
  then show ?case by (simp add: armed_signal_defined_def module_loaded_def)
next
  case (enable s)
  then show ?case
    by (auto simp add: armed_signal_defined_def enable_closed_form hasattr_signal_def
        split: option.splits)
next
  case (disable s)
  then show ?case
    by (auto simp add: armed_signal_defined_def disable_closed_form hasattr_signal_def
        split: option.splits)
next
  case (raise s thread_id exception)
  then show ?case
    by (cases "current_platform e = ''CPython''")
      (auto simp add: armed_signal_defined_def raise_closed_form raise_unsupported_flag
        cpython_closed_form hasattr_signal_def Let_def split: option.splits if_splits)
next
  case (handler s signum)
  then show ?case by (simp add: armed_signal_defined_def handler_flag)
next
  case (threads s ts os)
  then show ?case by (simp add: armed_signal_defined_def)
next
  case (caller s b)
  then show ?case by (simp add: armed_signal_defined_def)
qed

text \<open>
  \<open>enable\<close> arms the flag only after both signal calls have accepted the value, so an
  armed flag also means that the host accepts the configured signal.
\<close>

lemma raise_flag:
  "system_call_interruptable (snd (raise_thread_exception e thread_id x s))
     = system_call_interruptable s"
  by (cases "current_platform e = ''CPython''")
    (auto simp add: raise_closed_form raise_unsupported_flag cpython_closed_form Let_def
      split: option.splits)

lemma reachable_armed_signal_accepted: "reachable e s \<Longrightarrow> armed_signal_accepted e s"
proof (induction rule: reachable.induct)
  case (loaded ts os)
  then show ?case by (simp add: armed_signal_accepted_def module_loaded_def)
next
  case (enable s)
  then show ?case
    by (auto simp add: armed_signal_accepted_def signal_accepted_def enable_closed_form
        split: option.splits)
next
  case (disable s)
  then show ?case
    by (auto simp add: armed_signal_accepted_def signal_accepted_def disable_closed_form
        split: option.splits)
next
  case (raise s thread_id exception)
  then show ?case by (simp add: armed_signal_accepted_def raise_flag)
next
  case (handler s signum)
  then show ?case by (simp add: armed_signal_accepted_def handler_flag)
next
  case (threads s ts os)
  then show ?case by (simp add: armed_signal_accepted_def)
next
  case (caller s b)
  then show ?case by (simp add: armed_signal_accepted_def)
qed

section \<open>The marshalling type of thread ids\<close>

lemma thread_id_ctype_3_6:
  "thread_id_ctype (e\<lparr>python_version := [''3'', ''6'', ''15'']\<rparr>) = c_long"
  by (simp add: thread_id_ctype_def less_char_def)

lemma thread_id_ctype_3_7:
  "thread_id_ctype (e\<lparr>python_version := [''3'', ''7'', ''0'']\<rparr>) = c_ulong"
  by (simp add: thread_id_ctype_def less_char_def)

lemma thread_id_ctype_3_9:
  "thread_id_ctype (e\<lparr>python_version := [''3'', ''9'', ''18'']\<rparr>) = c_ulong"
  by (simp add: thread_id_ctype_def less_char_def)

text \<open>
  C2. The claim: every version older than 3.7 gets \<open>c_long\<close> and every version from
  3.7 on, 3.10 and above included, gets \<open>c_ulong\<close>. The comparison of line 32 is
  between tuples of strings, so the minor version \<open>''10''\<close> is compared with \<open>''7''\<close>
  character by character and is smaller: on Python 3.10.0 the module picks \<open>c_long\<close>,
  the type meant for the versions before 3.7.
\<close>

theorem thread_id_ctype_python_3_10:
  "thread_id_ctype (e\<lparr>python_version := [''3'', ''10'', ''0'']\<rparr>) = c_long"
  by (simp add: thread_id_ctype_def less_char_def)

section \<open>The place of Interrupt in the exception hierarchy\<close>

lemma issubclass_Interrupt_cases:
  "issubclass Interrupt h \<Longrightarrow> h = Interrupt \<or> h = BaseException_cls \<or> h = object_cls"
  by (auto simp add: class_defs)

text \<open>
  C9. \<open>Interrupt\<close> does not derive from \<open>Exception\<close>, the base of the ordinary
  application errors: a handler for \<open>Exception\<close>, or for any class \<open>h\<close> that derives
  from it (as the application's own error base does), does not catch an \<open>Interrupt\<close>.
  A handler for \<open>BaseException\<close> does.
\<close>

theorem Interrupt_not_caught_by_Exception_handlers:
  "\<not> issubclass Interrupt Exception_cls
   \<and> (issubclass h Exception_cls \<longrightarrow> \<not> except_catches h Interrupt)
   \<and> except_catches BaseException_cls Interrupt"
proof -
  have a: "\<not> issubclass Interrupt Exception_cls"
    by (simp add: class_defs)
  have b: "\<not> except_catches h Interrupt" if "issubclass h Exception_cls"
    using that issubclass_Interrupt_cases [of h]
    by (auto simp add: except_catches_def class_defs)
  have c: "except_catches BaseException_cls Interrupt"
    by (simp add: except_catches_def class_defs)
  from a b c show ?thesis by blast
qed

theorem Interrupt_not_caught_by_Exception_handlers_witness:
  "issubclass (Class ''DramatiqError'' [Exception_cls]) Exception_cls
   \<and> \<not> except_catches (Class ''DramatiqError'' [Exception_cls]) Interrupt
   \<and> \<not> except_catches Exception_cls Interrupt"
  using Interrupt_not_caught_by_Exception_handlers [of "Class ''DramatiqError'' [Exception_cls]"]
    Interrupt_not_caught_by_Exception_handlers [of Exception_cls]
  by (simp add: class_defs)

section \<open>The injection step\<close>

text \<open>
  C5. An injection attempt returns the delivery count \<open>n\<close>, the number of thread states
  whose id is the marshalled \<open>thread_id\<close>, and raises nothing. With \<open>n = 0\<close> it logs
  one critical line that names the exception type and the thread id; with \<open>n > 1\<close> it
  logs one critical line and takes the injection back by a second call with a null
  exception, after which no thread state with that id has a pending exception; with
  \<open>n = 1\<close> it logs nothing and the exception stays pending. The thread id in the log
  is the \<open>value\<close> of the marshalled id, which is \<open>thread_id\<close> itself below \<open>2 ^ 63\<close>.
\<close>

theorem injection_classifies_delivery_count:
  assumes "raise_thread_exception_cpython e thread_id x s = (r, s')"
    and "n = length (filter (\<lambda>t. fst t = ctype_bits thread_id) (tstates s))"
  shows "r = Returned (int n)
    \<and> (n = 0 \<longrightarrow>
          logged s' = logged s @ [(CRITICAL, ''Failed to set exception (%s) in thread %r.'',
            [ArgStr (exctype_name x), ArgInt (ctype_value (thread_id_ctype e) (ctype_bits thread_id))])]
          \<and> calls s' = calls s @ [SetAsyncExc (ctype_bits thread_id) (Some x)])
    \<and> (n = 1 \<longrightarrow>
          logged s' = logged s
          \<and> calls s' = calls s @ [SetAsyncExc (ctype_bits thread_id) (Some x)]
          \<and> (\<forall>t \<in> set (tstates s'). fst t = ctype_bits thread_id \<longrightarrow> snd t = Some x))
    \<and> (n > 1 \<longrightarrow>
          logged s' = logged s @ [(CRITICAL, ''Exception (%s) was set in multiple threads.  Undoing...'',
            [ArgStr (exctype_name x)])]
          \<and> calls s' = calls s @ [SetAsyncExc (ctype_bits thread_id) (Some x),
                                   SetAsyncExc (ctype_bits thread_id) None]
          \<and> (\<forall>t \<in> set (tstates s'). fst t = ctype_bits thread_id \<longrightarrow> snd t = None))
    \<and> (0 \<le> thread_id \<and> thread_id < 2 ^ 63 \<longrightarrow>
          ctype_value (thread_id_ctype e) (ctype_bits thread_id) = thread_id)"
  using assms ctype_value_in_range [of thread_id "thread_id_ctype e"]
  by (auto simp add: cpython_closed_form split: if_splits)

theorem injection_classifies_delivery_count_witness:
  "raise_thread_exception_cpython linux_cpython 7 (Instance TimeLimitExceeded) (module_loaded [] [])
     = (Returned 0,
        (module_loaded [] [])
          \<lparr>calls := [SetAsyncExc 7 (Some (Instance TimeLimitExceeded))],
           logged := [(CRITICAL, ''Failed to set exception (%s) in thread %r.'',
                       [ArgStr ''TimeLimitExceeded'', ArgInt 7])]\<rparr>)
   \<and> fst (raise_thread_exception_cpython linux_cpython 7 (Instance TimeLimitExceeded)
           (module_loaded [(7, None), (9, None), (7, None)] [7, 9])) = Returned 2
   \<and> tstates (snd (raise_thread_exception_cpython linux_cpython 7 (Instance TimeLimitExceeded)
           (module_loaded [(7, None), (9, None), (7, None)] [7, 9])))
       = [(7, None), (9, None), (7, None)]
   \<and> tstates (snd (raise_thread_exception_cpython linux_cpython 7 (Instance TimeLimitExceeded)
           (module_loaded [(7, None), (9, None)] [7, 9])))
       = [(7, Some (Instance TimeLimitExceeded)), (9, None)]"
  using injection_classifies_delivery_count
    [of linux_cpython 7 "Instance TimeLimitExceeded" "module_loaded [] []"
        "fst (raise_thread_exception_cpython linux_cpython 7 (Instance TimeLimitExceeded)
               (module_loaded [] []))"
        "snd (raise_thread_exception_cpython linux_cpython 7 (Instance TimeLimitExceeded)
               (module_loaded [] []))" 0]
  by (simp add: cpython_closed_form module_loaded_def linux_cpython_def TimeLimitExceeded_def
      thread_id_ctype_def less_char_def ctype_bits_def)

section \<open>The orchestration\<close>

text \<open>
  C4. On CPython, in a state where the invariant holds, the calls of one
  \<open>raise_thread_exception\<close> start with the injection; a \<open>pthread_kill\<close> is among
  the calls that follow it if and only if the delivery count was exactly 1 and the flag
  is armed, and it is then sent to the marshalled \<open>thread_id\<close> with the configured
  signal. The wake signal counts as delivered when \<open>pthread_kill\<close> is called for it.
\<close>

theorem wake_signal_iff_single_delivery_and_armed:
  assumes "current_platform e = ''CPython''"
    and "armed_signal_defined e s"
    and "fst (raise_thread_exception_cpython e thread_id x s) = Returned count"
    and "raise_thread_exception e thread_id x s = (r, s')"
  shows "\<exists>rest. calls s' = calls s @ SetAsyncExc (ctype_bits thread_id) (Some x) # rest
     \<and> ((\<exists>t k. PthreadKill t k \<in> set rest) \<longleftrightarrow> (count = 1 \<and> system_call_interruptable s))
     \<and> (\<forall>t k. PthreadKill t k \<in> set rest \<longrightarrow>
           t = ctype_bits thread_id
           \<and> map_of (signal_module e) (system_call_interrupt_signal e) = Some k)"
  using assms
  by (auto simp add: raise_closed_form cpython_closed_form armed_signal_defined_def
        hasattr_signal_def Let_def split: if_splits option.splits)

theorem wake_signal_iff_single_delivery_and_armed_witness:
  "current_platform linux_cpython = ''CPython''
   \<and> armed_signal_defined linux_cpython
        ((module_loaded [(7, None)] [7])\<lparr>system_call_interruptable := True\<rparr>)
   \<and> calls (snd (raise_thread_exception linux_cpython 7 (Instance TimeLimitExceeded)
        ((module_loaded [(7, None)] [7])\<lparr>system_call_interruptable := True\<rparr>)))
       = [SetAsyncExc 7 (Some (Instance TimeLimitExceeded)), PthreadKill 7 10]
   \<and> calls (snd (raise_thread_exception linux_cpython 7 (Instance TimeLimitExceeded)
        (module_loaded [(7, None)] [7])))
       = [SetAsyncExc 7 (Some (Instance TimeLimitExceeded))]
   \<and> calls (snd (raise_thread_exception linux_cpython 8 (Instance TimeLimitExceeded)
        ((module_loaded [(7, None)] [7])\<lparr>system_call_interruptable := True\<rparr>)))
       = [SetAsyncExc 8 (Some (Instance TimeLimitExceeded))]"
  using wake_signal_iff_single_delivery_and_armed
    [of linux_cpython "(module_loaded [(7, None)] [7])\<lparr>system_call_interruptable := True\<rparr>"
        7 "Instance TimeLimitExceeded" 1
        "fst (raise_thread_exception linux_cpython 7 (Instance TimeLimitExceeded)
               ((module_loaded [(7, None)] [7])\<lparr>system_call_interruptable := True\<rparr>))"
        "snd (raise_thread_exception linux_cpython 7 (Instance TimeLimitExceeded)
               ((module_loaded [(7, None)] [7])\<lparr>system_call_interruptable := True\<rparr>))"]
  by (simp add: raise_closed_form cpython_closed_form armed_signal_defined_def hasattr_signal_def
      module_loaded_def linux_cpython_def ctype_bits_def Let_def)

text \<open>
  C8. On CPython with the flag armed and a delivery count of 1, when no native thread
  has the id any more, \<open>pthread_kill\<close> raises \<open>ProcessLookupError\<close> and
  \<open>raise_thread_exception\<close> still returns \<open>None\<close>: nothing is raised to the caller,
  nothing is logged or printed, and the outcome and the state are those of the run in
  which the thread exists.
\<close>

theorem missing_thread_at_wake_signal_is_swallowed:
  assumes "current_platform e = ''CPython''"
    and "armed_signal_defined e s"
    and "system_call_interruptable s"
    and "raise_thread_exception_cpython e thread_id x s = (Returned 1, s1)"
    and "ctype_bits thread_id \<notin> set (os_threads s)"
  shows "\<exists>k s'. map_of (signal_module e) (system_call_interrupt_signal e) = Some k
     \<and> fst (signal_pthread_kill thread_id k s1) = Raised ProcessLookupError
     \<and> raise_thread_exception e thread_id x s = (Returned PyNone, s')
     \<and> logged s' = logged s \<and> stdout s' = stdout s
     \<and> raise_thread_exception e thread_id x (s\<lparr>os_threads := ctype_bits thread_id # os_threads s\<rparr>)
         = (Returned PyNone, s'\<lparr>os_threads := ctype_bits thread_id # os_threads s\<rparr>)"
  using assms
  by (auto simp add: raise_closed_form cpython_closed_form armed_signal_defined_def
        hasattr_signal_def signal_pthread_kill_def Let_def split: if_splits option.splits)

theorem missing_thread_at_wake_signal_is_swallowed_witness:
  "current_platform linux_cpython = ''CPython''
   \<and> armed_signal_defined linux_cpython
        ((module_loaded [(7, None)] [])\<lparr>system_call_interruptable := True\<rparr>)
   \<and> fst (raise_thread_exception_cpython linux_cpython 7 (Instance TimeLimitExceeded)
        ((module_loaded [(7, None)] [])\<lparr>system_call_interruptable := True\<rparr>)) = Returned 1
   \<and> ctype_bits 7 \<notin> set (os_threads
        ((module_loaded [(7, None)] [])\<lparr>system_call_interruptable := True\<rparr>))
   \<and> raise_thread_exception linux_cpython 7 (Instance TimeLimitExceeded)
        ((module_loaded [(7, None)] [])\<lparr>system_call_interruptable := True\<rparr>)
       = (Returned PyNone,
          (module_loaded [(7, Some (Instance TimeLimitExceeded))] [])
            \<lparr>system_call_interruptable := True,
             calls := [SetAsyncExc 7 (Some (Instance TimeLimitExceeded)), PthreadKill 7 10]\<rparr>)"
  using missing_thread_at_wake_signal_is_swallowed
    [of linux_cpython "(module_loaded [(7, None)] [])\<lparr>system_call_interruptable := True\<rparr>"
        7 "Instance TimeLimitExceeded"
        "snd (raise_thread_exception_cpython linux_cpython 7 (Instance TimeLimitExceeded)
               ((module_loaded [(7, None)] [])\<lparr>system_call_interruptable := True\<rparr>))"]
  by (simp add: raise_closed_form cpython_closed_form armed_signal_defined_def hasattr_signal_def
      module_loaded_def linux_cpython_def ctype_bits_def Let_def)

text \<open>
  C6. When the platform is not CPython, \<open>raise_thread_exception\<close> makes no call at
  all (no injection, no \<open>pthread_kill\<close>), logs one critical line whose arguments are
  the name of the exception's class (of the class itself when a class was passed, of its
  type when an instance was) and the platform, returns \<open>None\<close> and leaves every other
  part of the state as it was.
\<close>

theorem unsupported_platform_only_logs:
  assumes "current_platform e \<noteq> ''CPython''"
  shows "raise_thread_exception e thread_id x s =
     (Returned PyNone,
      s\<lparr>logged := logged s @
         [(CRITICAL,
           ''Setting thread exceptions (%s) is not supported for your current platform (%r).'',
           [ArgStr (exctype_name x), ArgStr (current_platform e)])]\<rparr>)
   \<and> calls (snd (raise_thread_exception e thread_id x s)) = calls s
   \<and> tstates (snd (raise_thread_exception e thread_id x s)) = tstates s
   \<and> exctype_name (ClassObj c) = class_name c \<and> exctype_name (Instance c) = class_name c"
  using assms by (simp add: raise_thread_exception_def py_defs)

theorem unsupported_platform_only_logs_witness:
  "current_platform (linux_cpython\<lparr>current_platform := ''PyPy''\<rparr>) \<noteq> ''CPython''
   \<and> raise_thread_exception (linux_cpython\<lparr>current_platform := ''PyPy''\<rparr>) 7
        (ClassObj TimeLimitExceeded) (module_loaded [(7, None)] [7])
       = (Returned PyNone,
          (module_loaded [(7, None)] [7])
            \<lparr>logged :=
               [(CRITICAL,
                 ''Setting thread exceptions (%s) is not supported for your current platform (%r).'',
                 [ArgStr ''TimeLimitExceeded'', ArgStr ''PyPy''])]\<rparr>)"
  using unsupported_platform_only_logs
    [of "linux_cpython\<lparr>current_platform := ''PyPy''\<rparr>" 7 "ClassObj TimeLimitExceeded"
        "module_loaded [(7, None)] [7]" TimeLimitExceeded]
  by (simp add: linux_cpython_def module_loaded_def TimeLimitExceeded_def)

text \<open>
  C1. The claim: \<open>raise_thread_exception\<close> returns a success or failure result that
  reflects the outcome of the injection, and the wake-signal step never changes it. The
  function has no \<open>return\<close> statement: it returns \<open>None\<close> whether the injection
  reached a thread or not, and the delivery count is visible only in the log. Amended:
  in every state where the invariant holds, \<open>raise_thread_exception\<close> returns normally
  and returns \<open>None\<close>, whatever the outcome of the injection, and whichever native
  threads exist when the wake signal is sent (so whatever the outcome of that step).
\<close>

theorem raise_thread_exception_returns_None:
  assumes "armed_signal_defined e s"
  shows "fst (raise_thread_exception e thread_id x s) = Returned PyNone
     \<and> fst (raise_thread_exception e thread_id x (s\<lparr>os_threads := os\<rparr>)) = Returned PyNone"
proof -
  have "armed_signal_defined e (s\<lparr>os_threads := os\<rparr>)"
    using assms by (simp add: armed_signal_defined_def)
  with assms show ?thesis
    by (simp add: raise_returns_None)
qed

theorem raise_thread_exception_returns_None_witness:
  "armed_signal_defined linux_cpython
     ((module_loaded [(7, None)] [7])\<lparr>system_call_interruptable := True\<rparr>)
   \<and> fst (raise_thread_exception linux_cpython 7 (Instance TimeLimitExceeded)
        ((module_loaded [(7, None)] [7])\<lparr>system_call_interruptable := True\<rparr>)) = Returned PyNone
   \<and> fst (raise_thread_exception linux_cpython 7 (Instance TimeLimitExceeded)
        ((module_loaded [(7, None)] [7])\<lparr>system_call_interruptable := True, os_threads := []\<rparr>))
       = Returned PyNone"
proof -
  have h: "armed_signal_defined linux_cpython
     ((module_loaded [(7, None)] [7])\<lparr>system_call_interruptable := True\<rparr>)"
    by (simp add: armed_signal_defined_def hasattr_signal_def linux_cpython_def)
  show ?thesis
    using h raise_thread_exception_returns_None [OF h, of 7 "Instance TimeLimitExceeded" "[]"]
    by simp
qed

text \<open>
  The counterexample to C1 as stated: thread 7 exists in the first state and the injection
  delivers to one thread; no thread exists in the second and the injection delivers to
  none; \<open>raise_thread_exception\<close> returns \<open>None\<close> in both.
\<close>

theorem raise_thread_exception_result_ignores_injection:
  "fst (raise_thread_exception_cpython linux_cpython 7 (Instance TimeLimitExceeded)
          (module_loaded [(7, None)] [7])) = Returned 1
   \<and> fst (raise_thread_exception_cpython linux_cpython 7 (Instance TimeLimitExceeded)
          (module_loaded [] [])) = Returned 0
   \<and> fst (raise_thread_exception linux_cpython 7 (Instance TimeLimitExceeded)
          (module_loaded [(7, None)] [7])) = Returned PyNone
   \<and> fst (raise_thread_exception linux_cpython 7 (Instance TimeLimitExceeded)
          (module_loaded [] [])) = Returned PyNone"
  by (simp add: raise_closed_form cpython_closed_form linux_cpython_def module_loaded_def
      ctype_bits_def Let_def)

section \<open>The system-call interrupt controller\<close>

text \<open>
  C7. The claim: the handler is a no-op whose only effect is to return, with no output
  and no state change. The handler of lines 49 to 51 prints a line and logs it at debug
  level. Amended: every invocation of the handler prints the line
  \<open>Interrupting system call in worker thread.\<close> to standard output, logs the same
  message at debug level and returns \<open>None\<close>; the flag, the thread states and the
  calls made are unchanged.
\<close>

theorem interrupt_signal_handler_prints_and_logs:
  "interrupt_signal_handler signum frame s =
     (Returned PyNone,
      s\<lparr>stdout := stdout s @ [''Interrupting system call in worker thread.''],
        logged := logged s @ [(DEBUG, ''Interrupting system call in worker thread.'', [])]\<rparr>)"
  by (simp add: interrupt_signal_handler_def py_defs)

text \<open>
  The counterexample to C7 as stated: one invocation in the state right after import
  leaves a line on standard output and a debug record in the log.
\<close>

theorem interrupt_signal_handler_changes_state:
  "stdout (snd (interrupt_signal_handler 10 () (module_loaded [] [])))
     = [''Interrupting system call in worker thread.'']
   \<and> logged (snd (interrupt_signal_handler 10 () (module_loaded [] [])))
     = [(DEBUG, ''Interrupting system call in worker thread.'', [])]
   \<and> snd (interrupt_signal_handler 10 () (module_loaded [] [])) \<noteq> module_loaded [] []"
  by (simp add: interrupt_signal_handler_def py_defs module_loaded_def)



text \<open>
  C10. In every state the module can reach, an armed flag means that the configured
  name is an attribute of \<open>signal\<close>: \<open>enable\<close> arms the flag only behind its
  \<open>hasattr\<close> guard and nothing else sets it. So the lookups of the signal in
  \<open>disable\<close> and \<open>raise_thread_exception\<close> cannot raise there: \<open>disable\<close> never
  ends in \<open>AttributeError\<close> and returns normally when called from the main thread
  (off the main thread \<open>signal.signal\<close> refuses the call), and
  \<open>raise_thread_exception\<close> returns normally. When the configured name is not
  defined, the flag is false and \<open>enable\<close> leaves the state as it is, flag false and
  no call made.
\<close>

theorem armed_flag_implies_signal_defined:
  assumes "reachable e s"
  shows "armed_signal_defined e s
     \<and> fst (disable_system_call_interruptable_support e s) \<noteq> Raised AttributeError
     \<and> (main_thread s \<longrightarrow>
          (\<exists>s'. disable_system_call_interruptable_support e s = (Returned PyNone, s')))
     \<and> (\<exists>s'. raise_thread_exception e thread_id x s = (Returned PyNone, s'))
     \<and> (\<not> hasattr_signal e (system_call_interrupt_signal e) \<longrightarrow>
          \<not> system_call_interruptable s
          \<and> enable_system_call_interruptable_support e s = (Returned PyNone, s))"
proof -
  have inv: "armed_signal_defined e s"
    using assms by (rule reachable_armed_signal_defined)
  have acc: "armed_signal_accepted e s"
    using assms by (rule reachable_armed_signal_accepted)
  have a: "fst (disable_system_call_interruptable_support e s) \<noteq> Raised AttributeError"
    using inv
    by (auto simp add: disable_closed_form armed_signal_defined_def hasattr_signal_def
        split: option.splits)
  have d: "\<exists>s'. disable_system_call_interruptable_support e s = (Returned PyNone, s')"
    if "main_thread s"
    using that acc
    by (auto simp add: disable_closed_form armed_signal_accepted_def signal_accepted_def
        split: option.splits)
  have r: "\<exists>s'. raise_thread_exception e thread_id x s = (Returned PyNone, s')"
    using raise_returns_None [OF inv, of thread_id x]
    by (cases "raise_thread_exception e thread_id x s") simp
  have n: "\<not> system_call_interruptable s
      \<and> enable_system_call_interruptable_support e s = (Returned PyNone, s)"
    if "\<not> hasattr_signal e (system_call_interrupt_signal e)"
    using that inv by (auto simp add: enable_closed_form armed_signal_defined_def hasattr_signal_def)
  from inv a d r n show ?thesis by blast
qed

theorem armed_flag_implies_signal_defined_witness:
  "reachable linux_cpython
     (snd (enable_system_call_interruptable_support linux_cpython (module_loaded [(7, None)] [7])))
   \<and> system_call_interruptable
     (snd (enable_system_call_interruptable_support linux_cpython (module_loaded [(7, None)] [7])))
   \<and> hasattr_signal linux_cpython (system_call_interrupt_signal linux_cpython)
   \<and> fst (disable_system_call_interruptable_support linux_cpython
     (snd (enable_system_call_interruptable_support linux_cpython (module_loaded [(7, None)] [7]))))
       = Returned PyNone
   \<and> reachable (linux_cpython\<lparr>system_call_interrupt_signal := ''SIGNONE''\<rparr>)
        (module_loaded [(7, None)] [7])
   \<and> \<not> hasattr_signal (linux_cpython\<lparr>system_call_interrupt_signal := ''SIGNONE''\<rparr>) ''SIGNONE''
   \<and> enable_system_call_interruptable_support
        (linux_cpython\<lparr>system_call_interrupt_signal := ''SIGNONE''\<rparr>) (module_loaded [(7, None)] [7])
       = (Returned PyNone, module_loaded [(7, None)] [7])"
proof -
  have r1: "reachable linux_cpython
     (snd (enable_system_call_interruptable_support linux_cpython (module_loaded [(7, None)] [7])))"
    by (intro reachable.enable reachable.loaded)
  have r2: "reachable (linux_cpython\<lparr>system_call_interrupt_signal := ''SIGNONE''\<rparr>)
        (module_loaded [(7, None)] [7])"
    by (rule reachable.loaded)
  show ?thesis
    using r1 r2
      armed_flag_implies_signal_defined [OF r1, of 7 "Instance TimeLimitExceeded"]
      armed_flag_implies_signal_defined [OF r2, of 7 "Instance TimeLimitExceeded"]
    by (simp add: enable_closed_form disable_closed_form armed_signal_defined_def hasattr_signal_def
        linux_cpython_def module_loaded_def)
qed

end
